theory Spec2Isabelle
  imports Complex_Main "HOL-Library.Sublist" "HOL-Library.Product_Lexorder"
begin

section \<open>Python values and strings\<close>

text \<open>
  Strings are lists of characters whose code points lie below 256 (Latin-1); the
  string methods the source uses are given on that range. Values decoded from JSON,
  and every Python value whose type the source does not fix, are of type \<open>json\<close>;
  a dictionary is an association list read with \<open>map_of\<close>.
\<close>

datatype json =
    JNull
  | JBool bool
  | JInt int
  | JFloat real
  | JStr string
  | JList "json list"
  | JDict "(string \<times> json) list"

text \<open>Exceptions that leave a function of the source.\<close>

datatype exn =
    AttributeError string
  | TypeError
  | IndexError
  | DbError string

text \<open>\<open>str.lower()\<close>: A-Z and the upper-case letters of Latin-1 move up by 32.\<close>

definition lower_char :: "char \<Rightarrow> char" where
  "lower_char c =
     (let n = (of_char c :: nat)
      in if (65 \<le> n \<and> n \<le> 90) \<or> (192 \<le> n \<and> n \<le> 222 \<and> n \<noteq> 215)
         then char_of (n + 32) else c)"

definition lower :: "string \<Rightarrow> string" where
  "lower s = map lower_char s"

text \<open>\<open>str.strip()\<close> removes the characters for which \<open>str.isspace()\<close> holds.\<close>

definition isspace :: "char \<Rightarrow> bool" where
  "isspace c =
     (let n = (of_char c :: nat)
      in (9 \<le> n \<and> n \<le> 13) \<or> (28 \<le> n \<and> n \<le> 32) \<or> n = 133 \<or> n = 160)"

definition strip :: "string \<Rightarrow> string" where
  "strip s = rev (dropWhile isspace (rev (dropWhile isspace s)))"

text \<open>\<open>sep.join(xs)\<close>.\<close>

fun join :: "string \<Rightarrow> string list \<Rightarrow> string" where
  "join sep [] = []"
| "join sep [x] = x"
| "join sep (x # y # ys) = x @ sep @ join sep (y # ys)"

text \<open>\<open>str(n)\<close> for a non-negative integer.\<close>

fun str_nat :: "nat \<Rightarrow> string" where
  "str_nat n =
     (if n < 10 then [char_of (48 + n)]
      else str_nat (n div 10) @ [char_of (48 + n mod 10)])"

declare str_nat.simps [simp del]

text \<open>Truth value of a Python value, as \<open>if v\<close> and \<open>not v\<close> test it.\<close>

fun truthy :: "json \<Rightarrow> bool" where
  "truthy JNull = False"
| "truthy (JBool b) = b"
| "truthy (JInt i) = (i \<noteq> 0)"
| "truthy (JFloat r) = (r \<noteq> 0)"
| "truthy (JStr s) = (s \<noteq> [])"
| "truthy (JList xs) = (xs \<noteq> [])"
| "truthy (JDict kvs) = (kvs \<noteq> [])"

text \<open>\<open>type(v).__name__\<close>, as it appears in the message of an AttributeError.\<close>

fun type_name :: "json \<Rightarrow> string" where
  "type_name JNull = ''NoneType''"
| "type_name (JBool b) = ''bool''"
| "type_name (JInt i) = ''int''"
| "type_name (JFloat r) = ''float''"
| "type_name (JStr s) = ''str''"
| "type_name (JList xs) = ''list''"
| "type_name (JDict kvs) = ''dict''"

definition no_attribute :: "json \<Rightarrow> string \<Rightarrow> string" where
  "no_attribute v a =
     [CHR 0x27] @ type_name v @ [CHR 0x27] @ '' object has no attribute '' @
     [CHR 0x27] @ a @ [CHR 0x27]"

section \<open>Uploaded files and conversation history\<close>

record file_data =
  filename :: string
  content :: string
  mime_type :: string
  size :: nat

record message_row =
  role :: string
  msg_content :: string

section \<open>TaskPlanner (task\_planner.py)\<close>

record plan =
  steps :: "string list"
  is_multi_step :: bool
  reasoning :: json

text \<open>
  The classifier is the call \<open>client.chat.completions.create\<close> followed by
  \<open>json.loads\<close> of the reply: it either raises (\<open>Inl\<close>) or yields the decoded value.
  It receives the two parts of the planning prompt that vary, the message and the
  file context; the rest of the prompt is a fixed template.
\<close>

type_synonym classifier = "string \<times> string \<Rightarrow> string + json"

record task_planner =
  client :: "classifier option"

definition IMAGE_PHRASES :: "string list" where
  "IMAGE_PHRASES =
    [''generate image'', ''generate an image'', ''generate a image'',
     ''create image'', ''create an image'', ''create a image'',
     ''make image'', ''make an image'', ''make a image'',
     ''draw a'', ''draw an'', ''draw me'',
     ''generate img'', ''create img'', ''make img'',
     ''generate pic'', ''create pic'', ''make pic'',
     ''generate photo'', ''create photo'', ''make photo'',
     ''generate picture'', ''create picture'', ''make picture'',
     ''image of'', ''picture of'', ''photo of'',
     ''render image'', ''render a'', ''visualize'',
     ''show me a picture'', ''show me an image'']"

definition is_image_request :: "string \<Rightarrow> bool" where
  "is_image_request message =
     (let msg = lower message in list_ex (\<lambda>phrase. sublist phrase msg) IMAGE_PHRASES)"

text \<open>\<open>f.get("filename", "").split(".")[-1]\<close>: what follows the last dot.\<close>

definition file_type :: "file_data \<Rightarrow> string" where
  "file_type f = rev (takeWhile (\<lambda>c. c \<noteq> CHR ''.'') (rev (filename f)))"

definition build_planning_prompt :: "string \<Rightarrow> file_data list \<Rightarrow> string \<times> string" where
  "build_planning_prompt message files =
     (let file_context =
        (if files \<noteq> []
         then [CHR 0x0A, CHR 0x0A] @ ''Files attached: '' @ str_nat (length files) @
              '' files ('' @ join '', '' (map file_type files) @ '')''
         else [])
      in (message, file_context))"

definition default_plan :: plan where
  "default_plan =
     \<lparr>steps = [''general''], is_multi_step = False,
      reasoning = JStr ''Default single-step plan''\<rparr>"

definition valid_types :: "string list" where
  "valid_types = [''coding'', ''documentation'', ''analysis'', ''general'', ''image_generation'']"

definition type_aliases :: "(string \<times> string) list" where
  "type_aliases =
    [(''code'', ''coding''), (''programming'', ''coding''), (''development'', ''coding''),
     (''doc'', ''documentation''), (''docs'', ''documentation''), (''writing'', ''documentation''),
     (''analyze'', ''analysis''), (''research'', ''analysis''), (''data'', ''analysis''),
     (''image'', ''image_generation''), (''picture'', ''image_generation''),
     (''draw'', ''image_generation''), (''generate_image'', ''image_generation'')]"

text \<open>One step name: \<open>s = step.lower().strip(); s = type_aliases.get(s, s)\<close>.\<close>

definition normalize_step :: "string \<Rightarrow> string" where
  "normalize_step step =
     (let s = strip (lower step)
      in case map_of type_aliases s of Some a \<Rightarrow> a | None \<Rightarrow> s)"

text \<open>
  The loop over \<open>result["steps"]\<close>. An entry that is not a string has no \<open>lower\<close>:
  the AttributeError leaves the loop (\<open>None\<close>) and is caught by \<open>plan_task\<close>.
\<close>

fun collect_valid_steps :: "json list \<Rightarrow> string list option" where
  "collect_valid_steps [] = Some []"
| "collect_valid_steps (JStr step # rest) =
     (case collect_valid_steps rest of
        None \<Rightarrow> None
      | Some vs \<Rightarrow>
          (let s = normalize_step step
           in Some (if s \<in> set valid_types then s # vs else vs)))"
| "collect_valid_steps (_ # rest) = None"

text \<open>
  \<open>plan_task\<close>. A decoded reply that is not a dictionary reaches \<open>_default_plan\<close> on
  every path: the membership test or the subscript raises inside the \<open>try\<close>, or the
  test \<open>"steps" not in result\<close> succeeds.
\<close>

definition plan_task :: "task_planner \<Rightarrow> string \<Rightarrow> file_data list \<Rightarrow> plan" where
  "plan_task self message files =
     (case client self of
        None \<Rightarrow>
          \<lparr>steps = [''general''], is_multi_step = False,
           reasoning = JStr ''No AI planner available - single step execution''\<rparr>
      | Some create \<Rightarrow>
          if is_image_request message
          then \<lparr>steps = [''image_generation''], is_multi_step = False,
                reasoning = JStr ''User wants to generate or create an image''\<rparr>
          else
            (case create (build_planning_prompt message files) of
               Inl e \<Rightarrow> default_plan
             | Inr (JDict result) \<Rightarrow>
                 (case map_of result ''steps'' of
                    Some (JList xs) \<Rightarrow>
                      (case collect_valid_steps xs of
                         None \<Rightarrow> default_plan
                       | Some vs \<Rightarrow>
                           (let valid_steps = (if vs = [] then [''general''] else vs)
                            in \<lparr>steps = valid_steps,
                                is_multi_step = (length valid_steps > 1),
                                reasoning =
                                  (case map_of result ''reasoning'' of
                                     Some r \<Rightarrow> r
                                   | None \<Rightarrow> JStr ''AI task planning'')\<rparr>))
                  | _ \<Rightarrow> default_plan)
             | Inr _ \<Rightarrow> default_plan))"

text \<open>
  \<open>should_continue_to_next_step\<close>: an error indicator in the first 200 characters of
  the lowered result stops the plan; otherwise it continues while a step remains.
\<close>

definition error_indicators :: "string list" where
  "error_indicators =
     [''error'', ''failed'', ''cannot'', ''unable to'',
      ''sorry'', ''apologize'', ''something went wrong'']"

definition should_continue_to_next_step :: "nat \<Rightarrow> nat \<Rightarrow> string \<Rightarrow> bool" where
  "should_continue_to_next_step current_step total_steps current_result =
     (let result_lower = take 200 (lower current_result)
      in if list_ex (\<lambda>indicator. sublist indicator result_lower) error_indicators
         then False
         else int current_step < int total_steps - 1)"

section \<open>The world outside the orchestrator\<close>

text \<open>
  A row of table \<open>ai_agents\<close> (core/database.py), with the columns the orchestrator
  reads.
\<close>

record agent =
  agent_id :: int
  agent_name :: string
  capability :: string
  host :: string
  port :: nat
  status :: string
  cpu_usage :: real
  memory_usage :: real
  last_heartbeat :: real

text \<open>What \<open>requests.post\<close> does: it raises, or a response arrives with its status
  code and with what \<open>response.json()\<close> yields (an exception message or a value).\<close>

datatype http_result =
    Timeout
  | RequestException string
  | Response nat "string + json"

text \<open>The dictionary returned by \<open>AnswerValidator.validate_answer\<close>.\<close>

record validation =
  quality_score :: real
  should_retry :: bool

text \<open>A database call fails when no connection is made (raised before the
  \<open>try\<close> of each function of core/database.py) or inside the query.\<close>

datatype db_fault = ConnectionFailed string | QueryFailed string

text \<open>An uploaded file as FastAPI hands it over.\<close>

record upload =
  upload_filename :: string
  upload_bytes :: string
  upload_content_type :: string

text \<open>
  The collaborators whose code is not part of the orchestrator are functions of a
  logical time, the number of external calls made so far, so that two calls with the
  same arguments may be answered differently. The modules \<open>worker_health_monitor\<close>,
  \<open>answer_validator\<close>, \<open>context_manager\<close> and \<open>workers.document_parser\<close> are
  not in the repository's sources; what the orchestrator calls on them is a field here.
\<close>

record world =
  planner :: task_planner
  router_client :: "(nat \<Rightarrow> (string \<times> string) list \<Rightarrow> string + json) option"
  db_fault_at :: "nat \<Rightarrow> db_fault option"
  ai_agents :: "nat \<Rightarrow> agent list"
  db_now :: "nat \<Rightarrow> real"
  new_task_id :: "nat \<Rightarrow> int"
  stored_messages :: "nat \<Rightarrow> string \<Rightarrow> message_row list"
  check_worker_health :: "nat \<Rightarrow> string \<Rightarrow> string"
  requests_post :: "nat \<Rightarrow> string \<Rightarrow> nat \<Rightarrow> string \<Rightarrow> file_data list \<Rightarrow> nat \<Rightarrow> http_result"
  elapsed :: "nat \<Rightarrow> real"
  unix_time :: "nat \<Rightarrow> nat"
  validate_answer :: "nat \<Rightarrow> string \<Rightarrow> json \<Rightarrow> string \<Rightarrow> validation"
  get_smart_context :: "nat \<Rightarrow> string \<Rightarrow> message_row list \<Rightarrow> string \<Rightarrow> string \<times> json"
  b64encode :: "string \<Rightarrow> string"
  parse_document :: "nat \<Rightarrow> string \<Rightarrow> string \<Rightarrow> string + json"

section \<open>Router state and the trace of external calls\<close>

text \<open>\<open>IntelligentRouter.worker\_stats\<close>: per worker name, \<open>{'success': _, 'total': _}\<close>.\<close>

record stats =
  success :: int
  total :: int

text \<open>Every call that leaves the orchestrator is recorded, in order.\<close>

datatype event =
    Db string
  | Lookup string
  | Select string "agent list"
  | Dispatch agent string
  | Direct string
  | Validate string json string validation
  | RecordFailure string
  | RecordWorkerTask string bool
  | SmartContext string
  | ParseDocument string
  | StepReturn json "json option"

record router_state =
  worker_stats :: "string \<Rightarrow> stats option"
  trace :: "event list"

definition clock :: "router_state \<Rightarrow> nat" where
  "clock s = length (trace s)"

definition emit :: "event \<Rightarrow> router_state \<Rightarrow> router_state" where
  "emit e s = s\<lparr>trace := trace s @ [e]\<rparr>"

section \<open>Worker registry lookup (core/database.py)\<close>

text \<open>SQL \<open>LIKE\<close>: \<open>%\<close> matches any run of characters, \<open>_\<close> any one character. The
  escape character is not modelled; no step kind contains it.\<close>

fun sql_like :: "string \<Rightarrow> string \<Rightarrow> bool" where
  "sql_like [] s = (s = [])"
| "sql_like (p # ps) [] = (p = CHR ''%'' \<and> sql_like ps [])"
| "sql_like (p # ps) (c # cs) =
     (if p = CHR ''%'' then sql_like ps (c # cs) \<or> sql_like (p # ps) cs
      else if p = CHR ''_'' \<or> p = c then sql_like ps cs
      else False)"

definition status_rank :: "string \<Rightarrow> nat" where
  "status_rank st = (if st = ''idle'' then 1 else if st = ''busy'' then 2 else 3)"

text \<open>The two queries of \<open>get_available_agents\<close>. Rows that tie in the \<open>ORDER BY\<close>
  keep the order of the table.\<close>

definition select_agents :: "world \<Rightarrow> nat \<Rightarrow> string \<Rightarrow> agent list" where
  "select_agents w t task_type =
     (let live = (\<lambda>a. last_heartbeat a > db_now w t - 30 \<and> status a \<noteq> ''failed'');
          rows =
            (if task_type \<noteq> [] \<and> task_type \<notin> set [''general'', ''image_generation'']
             then filter (\<lambda>a. live a \<and>
                               (sql_like (''%'' @ task_type @ ''%'') (capability a) \<or>
                                capability a = ''general''))
                         (ai_agents w t)
             else filter live (ai_agents w t))
      in sort_key (\<lambda>a. (status_rank (status a), cpu_usage a, memory_usage a)) rows)"

definition get_available_agents ::
  "world \<Rightarrow> string \<Rightarrow> router_state \<Rightarrow> (exn + agent list) \<times> router_state" where
  "get_available_agents w task_type s =
     (case db_fault_at w (clock s) of
        Some (ConnectionFailed e) \<Rightarrow> (Inl (DbError e), emit (Lookup task_type) s)
      | Some (QueryFailed e) \<Rightarrow> (Inl (DbError e), emit (Lookup task_type) s)
      | None \<Rightarrow> (Inr (select_agents w (clock s) task_type), emit (Lookup task_type) s))"

text \<open>\<open>create_task\<close>, \<open>assign_task_to_agent\<close> and \<open>store_execution_result\<close> have a
  \<open>finally\<close> and no \<open>except\<close>: a fault reaches the caller.\<close>

definition db_write :: "world \<Rightarrow> string \<Rightarrow> router_state \<Rightarrow> (exn + unit) \<times> router_state" where
  "db_write w name s =
     (case db_fault_at w (clock s) of
        Some (ConnectionFailed e) \<Rightarrow> (Inl (DbError e), emit (Db name) s)
      | Some (QueryFailed e) \<Rightarrow> (Inl (DbError e), emit (Db name) s)
      | None \<Rightarrow> (Inr (), emit (Db name) s))"

definition create_task :: "world \<Rightarrow> router_state \<Rightarrow> (exn + int) \<times> router_state" where
  "create_task w s =
     (case db_write w ''create_task'' s of
        (Inl e, s') \<Rightarrow> (Inl e, s')
      | (Inr u, s') \<Rightarrow> (Inr (new_task_id w (clock s)), s'))"

section \<open>IntelligentRouter (master\_controller.py)\<close>

text \<open>\<open>worker_stats.get(name, {'success': 0, 'total': 0})\<close>.\<close>

definition get_stats :: "(string \<Rightarrow> stats option) \<Rightarrow> string \<Rightarrow> stats" where
  "get_stats wstats name =
     (case wstats name of Some st \<Rightarrow> st | None \<Rightarrow> \<lparr>success = 0, total = 0\<rparr>)"

text \<open>The scoring inside the loop of \<open>select_best_worker\<close>.\<close>

definition success_rate :: "stats \<Rightarrow> real" where
  "success_rate st =
     (if total st > 0 then real_of_int (success st) / real_of_int (total st) else 0.9)"

definition score :: "stats \<Rightarrow> string \<Rightarrow> real" where
  "score st health =
     (let sc = success_rate st + real_of_int (min (total st) 10) * 0.01
      in if health = ''healthy'' then sc * 1.1
         else if health = ''degraded'' then sc * 0.9
         else sc)"

text \<open>The loop that builds \<open>scored\<close>; \<open>health\<close> is \<open>health_monitor.check_worker_health\<close>.\<close>

fun score_workers ::
  "(string \<Rightarrow> string) \<Rightarrow> (string \<Rightarrow> stats option) \<Rightarrow> agent list \<Rightarrow> (agent \<times> real \<times> real) list" where
  "score_workers health wstats [] = []"
| "score_workers health wstats (worker # rest) =
     (let name = agent_name worker; h = health name
      in if h \<in> set [''dead'', ''unhealthy''] then score_workers health wstats rest
         else
           (let st = get_stats wstats name
            in (worker, score st h, success_rate st) # score_workers health wstats rest))"

text \<open>\<open>max(scored, key=lambda x: x[1])\<close>: the first entry of the highest score.\<close>

fun max_by_score :: "(agent \<times> real \<times> real) \<Rightarrow> (agent \<times> real \<times> real) list \<Rightarrow> agent \<times> real \<times> real" where
  "max_by_score best [] = best"
| "max_by_score best (x # xs) =
     (if fst (snd x) > fst (snd best) then max_by_score x xs else max_by_score best xs)"

definition best_worker ::
  "(string \<Rightarrow> string) \<Rightarrow> (string \<Rightarrow> stats option) \<Rightarrow> agent list \<Rightarrow> agent option" where
  "best_worker health wstats available =
     (if available = [] then None
      else case score_workers health wstats available of
             [] \<Rightarrow> None
           | x # xs \<Rightarrow> Some (fst (max_by_score x xs)))"

definition select_best_worker ::
  "world \<Rightarrow> string \<Rightarrow> agent list \<Rightarrow> router_state \<Rightarrow> agent option \<times> router_state" where
  "select_best_worker w worker_type available s =
     (best_worker (check_worker_health w (clock s)) (worker_stats s) available,
      emit (Select worker_type available) s)"

text \<open>\<open>log_result\<close>. The health monitor and the analytics are told of the outcome.\<close>

definition bump_stats :: "(string \<Rightarrow> stats option) \<Rightarrow> string \<Rightarrow> bool \<Rightarrow> (string \<Rightarrow> stats option)" where
  "bump_stats wstats worker_name ok =
     (let st0 = get_stats wstats worker_name;
          st1 = st0\<lparr>total := total st0 + 1\<rparr>;
          st2 = (if ok then st1\<lparr>success := success st1 + 1\<rparr> else st1)
      in wstats(worker_name \<mapsto> st2))"

definition log_result :: "string \<Rightarrow> bool \<Rightarrow> router_state \<Rightarrow> router_state" where
  "log_result worker_name ok s =
     (let s1 = s\<lparr>worker_stats := bump_stats (worker_stats s) worker_name ok\<rparr>;
          s2 = (if ok then s1 else emit (RecordFailure worker_name) s1)
      in emit (RecordWorkerTask worker_name ok) s2)"

text \<open>The router as \<open>__init__\<close> leaves it, and the state after a sequence of
  \<open>log_result\<close> calls (worker name and outcome of each).\<close>

definition initial_state :: router_state where
  "initial_state = \<lparr>worker_stats = Map.empty, trace = []\<rparr>"

definition log_results :: "(string \<times> bool) list \<Rightarrow> router_state \<Rightarrow> router_state" where
  "log_results calls s = foldl (\<lambda>s call. log_result (fst call) (snd call) s) s calls"

text \<open>\<open>answer_directly\<close>.\<close>

definition answer_directly ::
  "world \<Rightarrow> string \<Rightarrow> message_row list \<Rightarrow> router_state \<Rightarrow> json \<times> router_state" where
  "answer_directly w message conversation_history s =
     (case router_client w of
        None \<Rightarrow> (JStr (''I'' @ [CHR 0x27] @ ''m offline. Please try again later.''),
                  emit (Direct message) s)
      | Some create \<Rightarrow>
          (let messages =
                 map (\<lambda>msg. (if role msg = ''user'' then ''user'' else ''assistant'', msg_content msg))
                     (drop (length conversation_history - 5) conversation_history)
                 @ [(''user'', message)]
           in case create (clock s) messages of
                Inl e \<Rightarrow> (JStr (''I encountered an error: '' @ take 100 e), emit (Direct message) s)
              | Inr reply \<Rightarrow> (reply, emit (Direct message) s)))"

section \<open>WorkerExecutor (master\_controller.py)\<close>

text \<open>
  \<open>execute\<close> returns \<open>(output, success, duration, extra_data)\<close>; \<open>extra_data\<close> is
  \<open>{}\<close> (\<open>None\<close>) or \<open>{"file": f}\<close> (\<open>Some f\<close>). The body of the \<open>try\<close> for a
  response of status 200 comes first: \<open>Inl\<close> is the message of the exception it
  raises (\<open>response.json()\<close> failing, \<open>get\<close> on a value that is no dictionary,
  \<open>lower\<close> on an output that is no string).
\<close>

text \<open>\<open>if not success or "error" in output.lower()[:100]\<close> and the two returns
  (\<open>success_flag\<close> is the source's \<open>success\<close>).\<close>

definition check_output :: "json \<Rightarrow> json \<Rightarrow> json option \<Rightarrow> string + (json \<times> bool \<times> json option)" where
  "check_output output success_flag extra_data =
     (if \<not> truthy success_flag then Inr (output, False, extra_data)
      else case output of
             JStr out \<Rightarrow>
               if sublist ''error'' (take 100 (lower out))
               then Inr (output, False, extra_data)
               else Inr (output, True, extra_data)
           | v \<Rightarrow> Inl (no_attribute v ''lower''))"

definition read_response :: "string + json \<Rightarrow> string + (json \<times> bool \<times> json option)" where
  "read_response body =
     (case body of
        Inl e \<Rightarrow> Inl e
      | Inr (JDict result) \<Rightarrow>
          (let output = (case map_of result ''result'' of Some v \<Rightarrow> v | None \<Rightarrow> JStr []);
               success_flag = (case map_of result ''success'' of Some v \<Rightarrow> v | None \<Rightarrow> JBool True);
               extra_data = map_of result ''file''
           in case extra_data of
                None \<Rightarrow> check_output output success_flag extra_data
              | Some (JDict f) \<Rightarrow> check_output output success_flag extra_data
              | Some f \<Rightarrow> Inl (no_attribute f ''get''))
      | Inr v \<Rightarrow> Inl (no_attribute v ''get''))"

definition execute ::
  "world \<Rightarrow> nat \<Rightarrow> agent \<Rightarrow> string \<Rightarrow> file_data list \<Rightarrow> string \<Rightarrow> nat \<Rightarrow>
     json \<times> bool \<times> real \<times> json option" where
  "execute w t worker message files context timeout =
     (let prompt = (if context \<noteq> [] then context @ [CHR 0x0A, CHR 0x0A] @ message else message);
          duration = elapsed w t
      in case requests_post w t (host worker) (port worker) prompt files timeout of
           Response status_code body \<Rightarrow>
             if status_code = 200
             then (case read_response body of
                     Inr (output, success_flag, extra_data) \<Rightarrow> (output, success_flag, duration, extra_data)
                   | Inl e \<Rightarrow> (JStr (''Worker error: '' @ take 100 e), False, duration, None))
             else (JStr (''Worker error: HTTP '' @ str_nat status_code), False, duration, None)
         | Timeout \<Rightarrow>
             (JStr (''Worker timeout after '' @ str_nat timeout @ ''s''), False, duration, None)
         | RequestException e \<Rightarrow>
             (JStr (''Worker error: '' @ take 100 e), False, duration, None))"

section \<open>execute\_single\_step (master\_controller.py)\<close>

definition fallback_map :: "(string \<times> string list) list" where
  "fallback_map =
     [(''coding'', [''general'', ''analysis'']),
      (''documentation'', [''general'', ''analysis'']),
      (''analysis'', [''general'', ''documentation'']),
      (''general'', [''analysis'', ''documentation'', ''coding'']),
      (''image_generation'', [''coding'', ''analysis'', ''general''])]"

text \<open>The loop over \<open>fallbacks\<close>: the first kind with a non-empty pool replaces
  \<open>worker_type\<close>; otherwise \<open>available\<close> stays empty.\<close>

fun try_fallbacks ::
  "world \<Rightarrow> string list \<Rightarrow> string \<Rightarrow> router_state \<Rightarrow>
     (exn + agent list \<times> string) \<times> router_state" where
  "try_fallbacks w [] worker_type s = (Inr ([], worker_type), s)"
| "try_fallbacks w (fallback_type # rest) worker_type s =
     (case get_available_agents w fallback_type s of
        (Inl e, s') \<Rightarrow> (Inl e, s')
      | (Inr available, s') \<Rightarrow>
          if available \<noteq> [] then (Inr (available, fallback_type), s')
          else try_fallbacks w rest worker_type s')"

text \<open>Worker lookup of one attempt: the pool of the planned kind, or, when that is
  empty, of the first fallback kind that has one.\<close>

definition find_workers ::
  "world \<Rightarrow> string \<Rightarrow> router_state \<Rightarrow> (exn + agent list \<times> string) \<times> router_state" where
  "find_workers w step_type s =
     (case get_available_agents w step_type s of
        (Inl e, s') \<Rightarrow> (Inl e, s')
      | (Inr available, s') \<Rightarrow>
          if available = []
          then (let fallbacks = (case map_of fallback_map step_type of
                                   Some fs \<Rightarrow> fs
                                 | None \<Rightarrow> [''general''])
                in try_fallbacks w fallbacks step_type s')
          else (Inr (available, step_type), s'))"

text \<open>What an attempt has produced: \<open>response_text\<close>, \<open>worker_name\<close>, \<open>success\<close>,
  \<open>duration\<close>, \<open>extra_data\<close>.\<close>

record outcome =
  o_response_text :: json
  o_worker_name :: string
  o_success :: bool
  o_duration :: real
  o_extra_data :: "json option"

text \<open>The master answers: \<open>router.answer_directly\<close> and the five assignments.\<close>

definition master_answer ::
  "world \<Rightarrow> string \<Rightarrow> message_row list \<Rightarrow> router_state \<Rightarrow> outcome \<times> router_state" where
  "master_answer w message history s =
     (case answer_directly w message history s of
        (text, s') \<Rightarrow>
          (\<lparr>o_response_text = text, o_worker_name = ''Master-Controller'', o_success = True,
            o_duration = 0, o_extra_data = None\<rparr>, s'))"

text \<open>\<open>assign_task_to_agent\<close> inside its \<open>try\<close>: a fault is printed and dropped.\<close>

definition assign_task_to_agent :: "world \<Rightarrow> router_state \<Rightarrow> router_state" where
  "assign_task_to_agent w s = snd (db_write w ''assign_task_to_agent'' s)"

text \<open>The branch \<open>if available:\<close>. With a selected worker the task is assigned,
  sent and its result stored; with none the master answers.\<close>

definition run_selected ::
  "world \<Rightarrow> string \<Rightarrow> agent list \<Rightarrow> string \<Rightarrow> file_data list \<Rightarrow> string \<Rightarrow>
     message_row list \<Rightarrow> router_state \<Rightarrow> (exn + outcome) \<times> router_state" where
  "run_selected w worker_type available message file_data smart_context history s =
     (case select_best_worker w worker_type available s of
        (Some worker, s1) \<Rightarrow>
          (let s2 = assign_task_to_agent w s1;
               r = execute w (clock s2) worker message file_data smart_context 120;
               s3 = emit (Dispatch worker message) s2
           in case db_write w ''store_execution_result'' s3 of
                (Inl e, s4) \<Rightarrow> (Inl e, s4)
              | (Inr u, s4) \<Rightarrow>
                  (Inr \<lparr>o_response_text = fst r, o_worker_name = agent_name worker,
                        o_success = fst (snd r), o_duration = fst (snd (snd r)),
                        o_extra_data = snd (snd (snd r))\<rparr>, s4))
      | (None, s1) \<Rightarrow>
          (case master_answer w message history s1 of (out, s2) \<Rightarrow> (Inr out, s2)))"

text \<open>The first part of the body of \<open>for attempt in range(max_retries)\<close>, up to
  \<open>if not available or not response_text\<close>: an answer is obtained from a worker or
  from the master.\<close>

definition obtain_answer ::
  "world \<Rightarrow> string \<Rightarrow> string \<Rightarrow> file_data list \<Rightarrow> string \<Rightarrow> message_row list \<Rightarrow>
     router_state \<Rightarrow> (exn + outcome) \<times> router_state" where
  "obtain_answer w step_type message file_data smart_context history s =
     (case find_workers w step_type s of
        (Inl e, s1) \<Rightarrow> (Inl e, s1)
      | (Inr (available, worker_type), s1) \<Rightarrow>
          if available \<noteq> []
          then (case run_selected w worker_type available message file_data
                       smart_context history s1 of
                  (Inl e, s2) \<Rightarrow> (Inl e, s2)
                | (Inr out, s2) \<Rightarrow>
                    if \<not> truthy (o_response_text out)
                    then (case master_answer w message history s2 of
                            (out', s3) \<Rightarrow> (Inr out', s3))
                    else (Inr out, s2))
          else (case master_answer w message history s1 of
                  (out, s2) \<Rightarrow> (Inr out, s2)))"

text \<open>The whole body: the answer is validated and logged. The result is the
  outcome and whether the loop breaks (\<open>not should_retry or quality_score >= 6\<close>).\<close>

definition attempt_step ::
  "world \<Rightarrow> string \<Rightarrow> string \<Rightarrow> file_data list \<Rightarrow> string \<Rightarrow> message_row list \<Rightarrow>
     router_state \<Rightarrow> (exn + outcome \<times> bool) \<times> router_state" where
  "attempt_step w step_type message file_data smart_context history s =
     (case obtain_answer w step_type message file_data smart_context history s of
        (Inl e, s2) \<Rightarrow> (Inl e, s2)
      | (Inr out, s2) \<Rightarrow>
          (let v = validate_answer w (clock s2) message (o_response_text out) (o_worker_name out);
               s3 = emit (Validate message (o_response_text out) (o_worker_name out) v) s2;
               s4 = log_result (o_worker_name out) (o_success out) s3
           in (Inr (out, \<not> should_retry v \<or> quality_score v \<ge> 6), s4)))"

text \<open>The loop itself, over the attempt numbers; \<open>cur\<close> holds \<open>response_text\<close> and
  \<open>extra_data\<close> as the previous attempt left them.\<close>

fun retry_loop ::
  "world \<Rightarrow> string \<Rightarrow> string \<Rightarrow> file_data list \<Rightarrow> string \<Rightarrow> message_row list \<Rightarrow>
     nat list \<Rightarrow> json \<times> json option \<Rightarrow> router_state \<Rightarrow>
     (exn + json \<times> json option) \<times> router_state" where
  "retry_loop w step_type message file_data smart_context history [] cur s = (Inr cur, s)"
| "retry_loop w step_type message file_data smart_context history (attempt # rest) cur s =
     (case attempt_step w step_type message file_data smart_context history s of
        (Inl e, s') \<Rightarrow> (Inl e, s')
      | (Inr (out, accepted), s') \<Rightarrow>
          if accepted then (Inr (o_response_text out, o_extra_data out), s')
          else retry_loop w step_type message file_data smart_context history rest
                 (o_response_text out, o_extra_data out) s')"

definition max_retries :: nat where
  "max_retries = 2"

text \<open>\<open>execute_single_step\<close>; its parameters \<open>conversation_id\<close> and \<open>user_id\<close> are
  not used by the body and are left out.\<close>

definition execute_single_step ::
  "world \<Rightarrow> string \<Rightarrow> string \<Rightarrow> file_data list \<Rightarrow> string \<Rightarrow> message_row list \<Rightarrow>
     router_state \<Rightarrow> (exn + json \<times> json option) \<times> router_state" where
  "execute_single_step w step_type message file_data file_context history s =
     (case create_task w s of
        (Inl e, s1) \<Rightarrow> (Inl e, s1)
      | (Inr task_id, s1) \<Rightarrow>
          (let smart_context = fst (get_smart_context w (clock s1) message history file_context);
               s2 = emit (SmartContext message) s1
           in case retry_loop w step_type message file_data smart_context history
                     [0..<max_retries] (JNull, None) s2 of
                (Inl e, s3) \<Rightarrow> (Inl e, s3)
              | (Inr (text, extra), s3) \<Rightarrow>
                  (Inr (text, extra), emit (StepReturn text extra) s3)))"

section \<open>execute\_multi\_step (master\_controller.py)\<close>

definition separator :: string where
  "separator = [CHR 0x0A, CHR 0x0A] @ ''---'' @ [CHR 0x0A, CHR 0x0A]"

text \<open>The message of step \<open>i\<close>: the request itself for the first step, afterwards
  the request with the first 500 characters of what has been answered so far.\<close>

definition step_message :: "nat \<Rightarrow> string \<Rightarrow> string \<Rightarrow> string \<Rightarrow> string" where
  "step_message i message final_response step_type =
     (if i = 0 then message
      else ''Continue from previous step.'' @ [CHR 0x0A, CHR 0x0A] @
           ''Original task: '' @ message @ [CHR 0x0A, CHR 0x0A] @
           ''Previous step result:'' @ [CHR 0x0A] @
           take 500 final_response @ ''...'' @ [CHR 0x0A, CHR 0x0A] @
           ''Now perform: '' @ step_type)"

text \<open>
  A step result that is no string ends \<open>execute_multi_step\<close> with an exception:
  slicing it raises (TypeError stands for what the subscript raises on \<open>None\<close>,
  numbers and dictionaries), and a list passes the slice but has no \<open>lower\<close> in
  \<open>should_continue_to_next_step\<close>.
\<close>

definition step_text :: "json \<Rightarrow> exn + string" where
  "step_text v =
     (case v of
        JStr r \<Rightarrow> Inr r
      | JList xs \<Rightarrow> Inl (AttributeError (no_attribute (JList xs) ''lower''))
      | _ \<Rightarrow> Inl TypeError)"

text \<open>The loop over \<open>enumerate(steps)\<close>; \<open>n\<close> is \<open>len(steps)\<close>, and \<open>acc\<close> holds
  \<open>accumulated_context\<close>, \<open>final_response\<close> and \<open>final_extra_data\<close>.\<close>

fun multi_step_loop ::
  "world \<Rightarrow> string \<Rightarrow> file_data list \<Rightarrow> message_row list \<Rightarrow> nat \<Rightarrow> (nat \<times> string) list \<Rightarrow>
     string \<times> string \<times> json option \<Rightarrow> router_state \<Rightarrow>
     (exn + string \<times> json option) \<times> router_state" where
  "multi_step_loop w message file_data history n [] acc s = (Inr (snd acc), s)"
| "multi_step_loop w message file_data history n (step # rest) acc s =
     (let i = fst step; step_type = snd step;
          accumulated_context = fst acc;
          final_response = fst (snd acc);
          final_extra_data = snd (snd acc)
      in case execute_single_step w step_type (step_message i message final_response step_type)
                file_data accumulated_context history s of
           (Inl e, s') \<Rightarrow> (Inl e, s')
         | (Inr (v, step_extra_data), s') \<Rightarrow>
             (case step_text v of
                Inl e \<Rightarrow> (Inl e, s')
              | Inr step_response \<Rightarrow>
                  (let final_response' =
                         (if i = 0 then step_response
                          else final_response @ separator @ step_response);
                       final_extra_data' =
                         (if i = 0 then step_extra_data
                          else if step_extra_data \<noteq> None then step_extra_data
                          else final_extra_data);
                       accumulated_context' =
                         accumulated_context @ [CHR 0x0A, CHR 0x0A] @ ''Step '' @
                         str_nat (i + 1) @ '' ('' @ step_type @ '') result:'' @
                         [CHR 0x0A] @ take 500 step_response
                   in if should_continue_to_next_step i n step_response
                      then multi_step_loop w message file_data history n rest
                             (accumulated_context', final_response', final_extra_data') s'
                      else (Inr (final_response', final_extra_data'), s'))))"

definition execute_multi_step ::
  "world \<Rightarrow> plan \<Rightarrow> string \<Rightarrow> file_data list \<Rightarrow> string \<Rightarrow> message_row list \<Rightarrow>
     router_state \<Rightarrow> (exn + string \<times> json option) \<times> router_state" where
  "execute_multi_step w task_plan message file_data file_context history s =
     multi_step_loop w message file_data history (length (steps task_plan))
       (enumerate 0 (steps task_plan)) (file_context, [], None) s"

section \<open>process\_message (master\_controller.py)\<close>

text \<open>Database functions with an \<open>except\<close> clause: a failed query is absorbed, a
  failed connection is raised before the \<open>try\<close>.\<close>

definition db_guarded :: "world \<Rightarrow> string \<Rightarrow> router_state \<Rightarrow> (exn + unit) \<times> router_state" where
  "db_guarded w name s =
     (case db_fault_at w (clock s) of
        Some (ConnectionFailed e) \<Rightarrow> (Inl (DbError e), emit (Db name) s)
      | Some (QueryFailed e) \<Rightarrow> (Inr (), emit (Db name) s)
      | None \<Rightarrow> (Inr (), emit (Db name) s))"

definition store_message ::
  "world \<Rightarrow> string \<Rightarrow> string \<Rightarrow> json \<Rightarrow> router_state \<Rightarrow> (exn + unit) \<times> router_state" where
  "store_message w conversation_id role_name content_value s =
     (if conversation_id = [] \<or> role_name = [] \<or> \<not> truthy content_value then (Inr (), s)
      else db_guarded w ''store_message'' s)"

definition get_last_n_messages ::
  "world \<Rightarrow> string \<Rightarrow> nat \<Rightarrow> router_state \<Rightarrow> (exn + message_row list) \<times> router_state" where
  "get_last_n_messages w conversation_id n s =
     (if conversation_id = [] then (Inr [], s)
      else case db_fault_at w (clock s) of
             Some (ConnectionFailed e) \<Rightarrow> (Inl (DbError e), emit (Db ''get_last_n_messages'') s)
           | Some (QueryFailed e) \<Rightarrow> (Inr [], emit (Db ''get_last_n_messages'') s)
           | None \<Rightarrow>
               (let rows = stored_messages w (clock s) conversation_id
                in (Inr (drop (length rows - n) rows), emit (Db ''get_last_n_messages'') s)))"

text \<open>\<open>FileProcessor.process_uploads\<close>: the loop yields \<open>file_data\<close> and
  \<open>parsed_texts\<close>; an exception of \<open>parse_document\<close>, or of \<open>strip\<close> on what it
  returned, is printed and dropped.\<close>

definition file_entry :: "world \<Rightarrow> upload \<Rightarrow> file_data" where
  "file_entry w file =
     \<lparr>filename = upload_filename file, content = b64encode w (upload_bytes file),
      mime_type = upload_content_type file, size = length (upload_bytes file)\<rparr>"

fun upload_loop ::
  "world \<Rightarrow> upload list \<Rightarrow> router_state \<Rightarrow> (file_data list \<times> string list) \<times> router_state" where
  "upload_loop w [] s = (([], []), s)"
| "upload_loop w (file # rest) s =
     (let entry = file_entry w file;
          parsed = parse_document w (clock s) (upload_filename file) (content entry);
          texts = (case parsed of
                     Inr (JStr p) \<Rightarrow>
                       if p \<noteq> [] \<and> length (strip p) > 0
                       then [''=== '' @ upload_filename file @ '' ==='' @ [CHR 0x0A] @ p]
                       else []
                   | _ \<Rightarrow> [])
      in case upload_loop w rest (emit (ParseDocument (upload_filename file)) s) of
           ((file_data, parsed_texts), s') \<Rightarrow> ((entry # file_data, texts @ parsed_texts), s'))"

definition process_uploads ::
  "world \<Rightarrow> upload list \<Rightarrow> router_state \<Rightarrow> (file_data list \<times> string) \<times> router_state" where
  "process_uploads w files s =
     (if files = [] then (([], []), s)
      else case upload_loop w files s of
             ((file_data, parsed_texts), s') \<Rightarrow>
               ((file_data, join [CHR 0x0A, CHR 0x0A] parsed_texts), s'))"

text \<open>The response payload: keys \<open>response\<close>, \<open>conversation_id\<close> and, when a
  file came back, \<open>file\<close>.\<close>

record payload =
  payload_response :: json
  payload_conversation_id :: string
  payload_file :: "json option"

text \<open>The part of \<open>process_message\<close> headed \<open>STEP 2: Execute based on plan\<close>.\<close>

definition execute_plan ::
  "world \<Rightarrow> plan \<Rightarrow> string \<Rightarrow> file_data list \<Rightarrow> string \<Rightarrow> message_row list \<Rightarrow>
     router_state \<Rightarrow> (exn + json \<times> json option) \<times> router_state" where
  "execute_plan w task_plan message file_data file_context history s =
     (if is_multi_step task_plan
      then (case execute_multi_step w task_plan message file_data file_context history s of
              (Inl e, s') \<Rightarrow> (Inl e, s')
            | (Inr (text, extra), s') \<Rightarrow> (Inr (JStr text, extra), s'))
      else case steps task_plan of
             [] \<Rightarrow> (Inl IndexError, s)
           | step_type # others \<Rightarrow>
               if step_type = ''general'' \<and> length (strip message) < 50
               then (case answer_directly w message history s of
                       (text, s') \<Rightarrow> (Inr (text, None), s'))
               else execute_single_step w step_type message file_data file_context history s)"

text \<open>\<open>if not conversation_id: conversation_id = f"{user_id}_{int(time.time())}"\<close>.\<close>

definition conversation_id_or_new ::
  "world \<Rightarrow> string \<Rightarrow> string option \<Rightarrow> router_state \<Rightarrow> string" where
  "conversation_id_or_new w user_id conversation_id s =
     (case conversation_id of
        Some c \<Rightarrow> if c \<noteq> [] then c else user_id @ ''_'' @ str_nat (unix_time w (clock s))
      | None \<Rightarrow> user_id @ ''_'' @ str_nat (unix_time w (clock s)))"

definition process_message ::
  "world \<Rightarrow> string \<Rightarrow> string \<Rightarrow> string option \<Rightarrow> upload list \<Rightarrow> router_state \<Rightarrow>
     (exn + payload) \<times> router_state" where
  "process_message w user_id message conversation_id files s =
     (let conversation_id = conversation_id_or_new w user_id conversation_id s
      in case db_guarded w ''create_or_get_conversation'' s of
           (Inl e, s1) \<Rightarrow> (Inl e, s1)
         | (Inr u, s1) \<Rightarrow>
      (case store_message w conversation_id ''user'' (JStr message) s1 of
           (Inl e, s2) \<Rightarrow> (Inl e, s2)
         | (Inr u, s2) \<Rightarrow>
      (case process_uploads w files s2 of
           ((file_data, file_context), s3) \<Rightarrow>
      (case get_last_n_messages w conversation_id 10 s3 of
           (Inl e, s4) \<Rightarrow> (Inl e, s4)
         | (Inr history, s4) \<Rightarrow>
      (case execute_plan w (plan_task (planner w) message file_data) message file_data
              file_context history s4 of
           (Inl e, s5) \<Rightarrow> (Inl e, s5)
         | (Inr (response_text, extra_data), s5) \<Rightarrow>
      (case store_message w conversation_id ''assistant'' response_text s5 of
           (Inl e, s6) \<Rightarrow> (Inl e, s6)
         | (Inr u, s6) \<Rightarrow>
             (case extra_data of
                None \<Rightarrow>
                  (Inr \<lparr>payload_response = response_text,
                        payload_conversation_id = conversation_id,
                        payload_file = None\<rparr>, s6)
              | Some (JDict f) \<Rightarrow>
                  (Inr \<lparr>payload_response = response_text,
                        payload_conversation_id = conversation_id,
                        payload_file = Some (JDict f)\<rparr>, s6)
              | Some f \<Rightarrow> (Inl (AttributeError (no_attribute f ''get'')), s6))))))))"

section \<open>Reading the state\<close>

text \<open>The invariant of the counters in \<open>worker_stats\<close>.\<close>

definition stats_ok :: "(string \<Rightarrow> stats option) \<Rightarrow> bool" where
  "stats_ok wstats =
     (\<forall>name st. wstats name = Some st \<longrightarrow> 0 \<le> success st \<and> success st \<le> total st)"

text \<open>The events a call has added to the trace of the state it started from.\<close>

definition new_events :: "router_state \<Rightarrow> router_state \<Rightarrow> event list" where
  "new_events s s' = drop (length (trace s)) (trace s')"

text \<open>\<open>s'\<close> continues the trace of \<open>s\<close> with events that all satisfy \<open>P\<close>.\<close>

definition extends_by :: "(event \<Rightarrow> bool) \<Rightarrow> router_state \<Rightarrow> router_state \<Rightarrow> bool" where
  "extends_by P s s' = (\<exists>es. trace s' = trace s @ es \<and> list_all P es)"

text \<open>Worker lookup, worker selection, dispatch to a worker and answer validation.\<close>

fun worker_event :: "event \<Rightarrow> bool" where
  "worker_event (Lookup task_type) = True"
| "worker_event (Select worker_type available) = True"
| "worker_event (Dispatch worker message) = True"
| "worker_event (Validate message answer name v) = True"
| "worker_event e = False"

text \<open>Projections of a trace: the kinds looked up, the kinds passed to
  \<open>select_best_worker\<close>, the workers a task was sent to, the answers validated with
  the verdicts, and what the calls of \<open>execute_single_step\<close> returned.\<close>

definition lookups :: "event list \<Rightarrow> string list" where
  "lookups es = [task_type. Lookup task_type \<leftarrow> es]"

definition selections :: "event list \<Rightarrow> string list" where
  "selections es = [worker_type. Select worker_type available \<leftarrow> es]"

definition dispatches :: "event list \<Rightarrow> agent list" where
  "dispatches es = [worker. Dispatch worker message \<leftarrow> es]"

definition validations :: "event list \<Rightarrow> (json \<times> validation) list" where
  "validations es = [(answer, v). Validate message answer name v \<leftarrow> es]"

definition step_returns :: "event list \<Rightarrow> (json \<times> json option) list" where
  "step_returns es = [(text, extra). StepReturn text extra \<leftarrow> es]"

text \<open>The validator asks for another attempt: \<open>should_retry\<close> with a score below 6.\<close>

definition rejected :: "validation \<Rightarrow> bool" where
  "rejected v = (should_retry v \<and> quality_score v < 6)"

text \<open>The last artifact among the extra results of the steps, \<open>None\<close> when no step
  produced one.\<close>

fun last_artifact :: "json option list \<Rightarrow> json option" where
  "last_artifact [] = None"
| "last_artifact (x # xs) =
     (case last_artifact xs of Some f \<Rightarrow> Some f | None \<Rightarrow> x)"

section \<open>A concrete registry\<close>

text \<open>
  Two registered workers, both idle and with a recent heartbeat: a coding worker
  that the health monitor reports as unhealthy and a general worker it reports as
  healthy. Every worker answers with status 200 and the text "done"; the validator
  accepts every answer; the database has no fault.
\<close>

definition coder :: agent where
  "coder = \<lparr>agent_id = 1, agent_name = ''coder-1'', capability = ''coding'',
            host = ''localhost'', port = 5001, status = ''idle'', cpu_usage = 10,
            memory_usage = 20, last_heartbeat = 95\<rparr>"

definition helper :: agent where
  "helper = \<lparr>agent_id = 2, agent_name = ''general-1'', capability = ''general'',
             host = ''localhost'', port = 5002, status = ''idle'', cpu_usage = 30,
             memory_usage = 40, last_heartbeat = 97\<rparr>"

definition scenario_world :: world where
  "scenario_world =
     \<lparr>planner = \<lparr>client = None\<rparr>,
      router_client = None,
      db_fault_at = (\<lambda>t. None),
      ai_agents = (\<lambda>t. [coder, helper]),
      db_now = (\<lambda>t. 100),
      new_task_id = (\<lambda>t. 7),
      stored_messages = (\<lambda>t c. []),
      check_worker_health = (\<lambda>t name. if name = ''coder-1'' then ''unhealthy'' else ''healthy''),
      requests_post = (\<lambda>t h p prompt files timeout.
         Response 200 (Inr (JDict [(''result'', JStr ''done''), (''success'', JBool True)]))),
      elapsed = (\<lambda>t. 2),
      unix_time = (\<lambda>t. 1700000000),
      validate_answer = (\<lambda>t message answer name. \<lparr>quality_score = 8, should_retry = False\<rparr>),
      get_smart_context = (\<lambda>t message history file_context. ([], JNull)),
      b64encode = (\<lambda>bytes. bytes),
      parse_document = (\<lambda>t name data. Inr JNull)\<rparr>"

section \<open>Properties of the task planner\<close>

lemma image_phrases_lower: "list_all (\<lambda>phrase. lower phrase = phrase) IMAGE_PHRASES"
  by code_simp

lemma is_image_request_contains:
  assumes "phrase \<in> set IMAGE_PHRASES" and "sublist phrase message"
  shows "is_image_request message"
proof -
  from assms(1) image_phrases_lower have "lower phrase = phrase"
    by (simp add: list_all_iff)
  moreover from assms(2) have "sublist (lower phrase) (lower message)"
    unfolding lower_def by (rule map_mono_sublist)
  ultimately have "sublist phrase (lower message)" by simp
  with assms(1) show ?thesis
    unfolding is_image_request_def Let_def list_ex_iff by blast
qed

text \<open>
  Claim C1, as the code has it. A message that contains one of the fixed image
  phrases is planned as the single step \<open>image_generation\<close>, whatever the classifier
  \<open>create\<close> would answer, provided the planner has a classifier client; a planner
  without client returns the single step \<open>general\<close> before the phrases are looked at.
\<close>

theorem plan_task_image_fast_path:
  "phrase \<in> set IMAGE_PHRASES \<Longrightarrow> sublist phrase message \<Longrightarrow>
     (client self = Some create \<longrightarrow>
        steps (plan_task self message files) = [''image_generation''] \<and>
        \<not> is_multi_step (plan_task self message files)) \<and>
     (client self = None \<longrightarrow>
        steps (plan_task self message files) = [''general''] \<and>
        \<not> is_multi_step (plan_task self message files))"
  by (simp add: plan_task_def is_image_request_contains)

text \<open>Claim C1, witness: a classifier that would answer \<open>coding\<close> is not consulted
  for "Please draw a cat".\<close>

theorem plan_task_image_fast_path_witness:
  "steps (plan_task \<lparr>client = Some (\<lambda>p. Inr (JDict [(''steps'', JList [JStr ''coding''])]))\<rparr>
            ''Please draw a cat'' []) = [''image_generation'']"
proof -
  have a: "''draw a'' \<in> set IMAGE_PHRASES" by code_simp
  have b: "sublist ''draw a'' ''Please draw a cat''" by code_simp
  show ?thesis
    using plan_task_image_fast_path [OF a b,
      of "\<lparr>client = Some (\<lambda>p. Inr (JDict [(''steps'', JList [JStr ''coding''])]))\<rparr>"
         "\<lambda>p. Inr (JDict [(''steps'', JList [JStr ''coding''])])" "[]"]
    by simp
qed

text \<open>Claim C1 as stated (the image plan is returned unconditionally) fails for a
  planner without client: "generate an image of a sunset" is not planned as
  \<open>image_generation\<close>.\<close>

theorem plan_task_image_no_client_counterexample:
  "''generate an image'' \<in> set IMAGE_PHRASES \<and>
   sublist ''generate an image'' ''generate an image of a sunset'' \<and>
   steps (plan_task \<lparr>client = None\<rparr> ''generate an image of a sunset'' []) \<noteq> [''image_generation'']"
  by code_simp

lemma collect_valid_steps_strings:
  "collect_valid_steps (map JStr names) =
     Some (filter (\<lambda>s. s \<in> set valid_types) (map normalize_step names))"
  by (induction names) (simp_all add: Let_def)

text \<open>
  Claim C2, as the code has it. When the classifier answers with a list of step
  names, the plan holds every recognised name after normalisation, in the
  classifier's order, and \<open>general\<close> alone when none is recognised: nothing is cut
  off, so the plan has at most as many steps as the classifier named (and at least
  one).
\<close>

theorem plan_task_steps_not_capped:
  assumes "client self = Some create"
    and "\<not> is_image_request message"
    and "create (build_planning_prompt message files) = Inr (JDict result)"
    and "map_of result ''steps'' = Some (JList (map JStr names))"
  shows "steps (plan_task self message files) =
           (let vs = filter (\<lambda>s. s \<in> set valid_types) (map normalize_step names)
            in if vs = [] then [''general''] else vs) \<and>
         length (steps (plan_task self message files)) \<le> max 1 (length names)"
proof -
  let ?vs = "filter (\<lambda>s. s \<in> set valid_types) (map normalize_step names)"
  have st: "steps (plan_task self message files) = (if ?vs = [] then [''general''] else ?vs)"
    using assms by (simp add: plan_task_def collect_valid_steps_strings Let_def)
  define vs where "vs = ?vs"
  have "length vs \<le> length (map normalize_step names)"
    unfolding vs_def by (rule length_filter_le)
  then have "length (if vs = [] then [''general''] else vs) \<le> max 1 (length names)"
    by (simp add: max_def)
  with st show ?thesis unfolding vs_def Let_def by simp
qed

text \<open>Claim C2, witness: five names, one unknown, give a plan of four steps.\<close>

theorem plan_task_steps_not_capped_witness:
  "steps (plan_task
       \<lparr>client = Some (\<lambda>p. Inr (JDict [(''steps'',
           JList (map JStr [''Code'', ''docs'', ''research'', ''general'', ''poetry'']))]))\<rparr>
       ''do it all'' []) = [''coding'', ''documentation'', ''analysis'', ''general'']"
proof -
  have a: "\<not> is_image_request ''do it all''" by code_simp
  have b: "map_of [(''steps'', JList (map JStr [''Code'', ''docs'', ''research'', ''general'', ''poetry'']))]
             ''steps'' = Some (JList (map JStr [''Code'', ''docs'', ''research'', ''general'', ''poetry'']))"
    by simp
  have c: "(let vs = filter (\<lambda>s. s \<in> set valid_types)
                       (map normalize_step [''Code'', ''docs'', ''research'', ''general'', ''poetry''])
            in if vs = [] then [''general''] else vs) =
           [''coding'', ''documentation'', ''analysis'', ''general'']"
    by code_simp
  show ?thesis
    using plan_task_steps_not_capped [OF _ a _ b,
      of "\<lparr>client = Some (\<lambda>p. Inr (JDict [(''steps'',
           JList (map JStr [''Code'', ''docs'', ''research'', ''general'', ''poetry'']))]))\<rparr>"
         "\<lambda>p. Inr (JDict [(''steps'',
           JList (map JStr [''Code'', ''docs'', ''research'', ''general'', ''poetry'']))])" "[]"]
    unfolding c by simp
qed

text \<open>Claim C2 as stated (at most 3 steps) fails when the classifier names four
  recognised steps.\<close>

theorem plan_task_four_steps_counterexample:
  "\<not> length (steps (plan_task
       \<lparr>client = Some (\<lambda>p. Inr (JDict [(''steps'',
           JList [JStr ''coding'', JStr ''documentation'', JStr ''analysis'', JStr ''general''])]))\<rparr>
       ''do it all'' [])) \<le> 3"
  by code_simp

section \<open>Properties of worker selection and scoring\<close>

lemma score_workers_sound:
  "(a, sc, r) \<in> set (score_workers health wstats available) \<Longrightarrow>
     a \<in> set available \<and> health (agent_name a) \<noteq> ''dead'' \<and> health (agent_name a) \<noteq> ''unhealthy''"
  by (induction available) (auto simp: Let_def split: if_splits)

lemma score_workers_empty:
  "score_workers health wstats available = [] \<longleftrightarrow>
     (\<forall>a \<in> set available. health (agent_name a) = ''dead'' \<or> health (agent_name a) = ''unhealthy'')"
  by (induction available) (auto simp: Let_def)

lemma max_by_score_mem: "max_by_score best xs \<in> set (best # xs)"
  by (induction xs arbitrary: best) auto

lemma best_worker_sound:
  assumes "best_worker health wstats available = Some worker"
  shows "worker \<in> set available \<and> health (agent_name worker) \<noteq> ''dead'' \<and>
         health (agent_name worker) \<noteq> ''unhealthy''"
proof -
  from assms obtain x xs where sw: "score_workers health wstats available = x # xs"
    and w: "worker = fst (max_by_score x xs)"
    by (auto simp: best_worker_def split: if_splits list.splits)
  obtain a sc r where m: "max_by_score x xs = (a, sc, r)" by (cases "max_by_score x xs")
  have "max_by_score x xs \<in> set (score_workers health wstats available)"
    using max_by_score_mem [of x xs] sw by simp
  with m have "(a, sc, r) \<in> set (score_workers health wstats available)" by simp
  from score_workers_sound [OF this] w m show ?thesis by simp
qed

lemma best_worker_None:
  "best_worker health wstats available = None \<longleftrightarrow>
     (\<forall>a \<in> set available. health (agent_name a) = ''dead'' \<or> health (agent_name a) = ''unhealthy'')"
proof (cases "available = []")
  case True
  then show ?thesis by (simp add: best_worker_def)
next
  case False
  then show ?thesis
    using score_workers_empty [of health wstats available]
    by (auto simp: best_worker_def split: list.splits)
qed

text \<open>
  Claim C4. A worker returned by \<open>select_best_worker\<close> is one of the candidates
  and its health is neither \<open>unhealthy\<close> nor \<open>dead\<close>; when every candidate has one
  of these two states, or there is no candidate, the result is \<open>None\<close>.
\<close>

theorem select_best_worker_skips_unhealthy:
  "(fst (select_best_worker w worker_type available s) = Some worker \<longrightarrow>
      worker \<in> set available \<and>
      check_worker_health w (clock s) (agent_name worker) \<noteq> ''unhealthy'' \<and>
      check_worker_health w (clock s) (agent_name worker) \<noteq> ''dead'') \<and>
   ((\<forall>a \<in> set available.
        check_worker_health w (clock s) (agent_name a) = ''unhealthy'' \<or>
        check_worker_health w (clock s) (agent_name a) = ''dead'') \<longrightarrow>
      fst (select_best_worker w worker_type available s) = None) \<and>
   (available = [] \<longrightarrow> fst (select_best_worker w worker_type available s) = None)"
  using best_worker_sound [of "check_worker_health w (clock s)" "worker_stats s" available worker]
        best_worker_None [of "check_worker_health w (clock s)" "worker_stats s" available]
  by (auto simp: select_best_worker_def)

lemma score_mono:
  "total a = total b \<Longrightarrow> success_rate a \<le> success_rate b \<Longrightarrow> score a h \<le> score b h"
  by (simp add: score_def Let_def)

lemma base_score_pos:
  assumes "0 \<le> success st" "0 \<le> total st"
  shows "0 < success_rate st + real_of_int (min (total st) 10) * 0.01"
proof (cases "total st > 0")
  case True
  then have "0 \<le> success_rate st" using assms by (simp add: success_rate_def)
  moreover have "0 < real_of_int (min (total st) 10) * 0.01" using True by simp
  ultimately show ?thesis by linarith
next
  case False
  with assms have "total st = 0" by simp
  then show ?thesis by (simp add: success_rate_def)
qed

text \<open>
  Claim C5. The score is \<open>success_rate + min(total, 10) * 0.01\<close>, times 1.1 for a
  healthy and 0.9 for a degraded worker, with a success rate of 0.9 at zero recorded
  tasks. For equal task counts and equal health a higher success rate gives an
  equal or higher score, and for counters that are not negative a healthy worker
  scores strictly higher than the same worker degraded.
\<close>

theorem score_monotonic:
  "(total a = total b \<longrightarrow> success_rate a \<le> success_rate b \<longrightarrow> score a h \<le> score b h) \<and>
   (0 \<le> success st \<longrightarrow> 0 \<le> total st \<longrightarrow> score st ''degraded'' < score st ''healthy'') \<and>
   (total st = 0 \<longrightarrow> success_rate st = 0.9) \<and>
   score st ''healthy'' = (success_rate st + real_of_int (min (total st) 10) * 0.01) * 1.1 \<and>
   score st ''degraded'' = (success_rate st + real_of_int (min (total st) 10) * 0.01) * 0.9"
proof (intro conjI impI)
  show "score a h \<le> score b h" if "total a = total b" "success_rate a \<le> success_rate b"
    using that by (rule score_mono)
  show "score st ''degraded'' < score st ''healthy''" if "0 \<le> success st" "0 \<le> total st"
    using base_score_pos [OF that] by (simp add: score_def Let_def)
  show "success_rate st = 0.9" if "total st = 0"
    using that by (simp add: success_rate_def)
qed (simp_all add: score_def Let_def)

text \<open>Claim C5, witness: 8 of 10 against 5 of 10 successes, and the same worker
  healthy against degraded.\<close>

theorem score_monotonic_witness:
  "score \<lparr>success = 5, total = 10\<rparr> ''healthy'' \<le> score \<lparr>success = 8, total = 10\<rparr> ''healthy'' \<and>
   score \<lparr>success = 8, total = 10\<rparr> ''degraded'' < score \<lparr>success = 8, total = 10\<rparr> ''healthy'' \<and>
   success_rate \<lparr>success = 0, total = 0\<rparr> = 0.9"
  using score_monotonic [of "\<lparr>success = 5, total = 10\<rparr>" "\<lparr>success = 8, total = 10\<rparr>"
                            "''healthy''" "\<lparr>success = 8, total = 10\<rparr>"]
        score_monotonic [of "\<lparr>success = 5, total = 10\<rparr>" "\<lparr>success = 8, total = 10\<rparr>"
                            "''healthy''" "\<lparr>success = 0, total = 0\<rparr>"]
  by (simp add: success_rate_def)

text \<open>Claim C4, witness: of an unhealthy and a healthy candidate the healthy one is
  returned, and an unhealthy candidate alone gives \<open>None\<close>.\<close>

theorem select_best_worker_skips_unhealthy_witness:
  "fst (select_best_worker scenario_world ''coding'' [coder, helper] initial_state) = Some helper \<and>
   helper \<in> set [coder, helper] \<and>
   check_worker_health scenario_world (clock initial_state) (agent_name helper) \<noteq> ''unhealthy'' \<and>
   check_worker_health scenario_world (clock initial_state) (agent_name helper) \<noteq> ''dead'' \<and>
   fst (select_best_worker scenario_world ''coding'' [coder] initial_state) = None"
proof -
  have a: "fst (select_best_worker scenario_world ''coding'' [coder, helper] initial_state) = Some helper"
    by (simp add: select_best_worker_def best_worker_def scenario_world_def coder_def helper_def
                  get_stats_def score_def success_rate_def initial_state_def clock_def)
  have b: "\<forall>a \<in> set [coder].
             check_worker_health scenario_world (clock initial_state) (agent_name a) = ''unhealthy'' \<or>
             check_worker_health scenario_world (clock initial_state) (agent_name a) = ''dead''"
    by (simp add: scenario_world_def coder_def)
  show ?thesis
    using select_best_worker_skips_unhealthy
            [of scenario_world "''coding''" "[coder, helper]" initial_state helper]
          select_best_worker_skips_unhealthy
            [of scenario_world "''coding''" "[coder]" initial_state helper] a b
    by simp
qed

section \<open>Properties of the worker statistics\<close>

lemma stats_ok_get_stats:
  "stats_ok wstats \<Longrightarrow> 0 \<le> success (get_stats wstats name) \<and>
     success (get_stats wstats name) \<le> total (get_stats wstats name)"
  by (auto simp: stats_ok_def get_stats_def split: option.splits)

lemma stats_ok_bump:
  assumes "stats_ok wstats"
  shows "stats_ok (bump_stats wstats name ok)"
  using assms stats_ok_get_stats [OF assms, of name]
  unfolding stats_ok_def bump_stats_def Let_def
  by auto

lemma worker_stats_emit [simp]: "worker_stats (emit e s) = worker_stats s"
  by (simp add: emit_def)

lemma worker_stats_log_result:
  "worker_stats (log_result name ok s) = bump_stats (worker_stats s) name ok"
  by (simp add: log_result_def Let_def)

lemma stats_ok_log_results:
  "stats_ok (worker_stats s) \<Longrightarrow> stats_ok (worker_stats (log_results calls s))"
  unfolding log_results_def
  by (induction calls arbitrary: s) (simp_all add: worker_stats_log_result stats_ok_bump)

lemma stats_ok_initial: "stats_ok (worker_stats initial_state)"
  by (simp add: stats_ok_def initial_state_def)

lemma success_rate_unit:
  assumes "0 \<le> success st" "success st \<le> total st"
  shows "0 \<le> success_rate st \<and> success_rate st \<le> 1"
proof (cases "total st > 0")
  case True
  with assms show ?thesis by (simp add: success_rate_def)
next
  case False
  then show ?thesis by (simp add: success_rate_def)
qed

text \<open>
  Claim C9. After any sequence of \<open>log_result\<close> calls on a fresh router the counters
  of every worker name satisfy \<open>0 \<le> success \<le> total\<close>, and the success rate that
  \<open>select_best_worker\<close> computes from them lies between 0 and 1 (it is 0.9 for a name
  without recorded task). One call adds exactly 1 to \<open>total\<close> of the named worker,
  adds 1 to its \<open>success\<close> exactly when the outcome is a success, and leaves the
  counters of every other name as they are.
\<close>

theorem worker_stats_invariant:
  "(worker_stats (log_results calls initial_state) name = Some st \<longrightarrow>
       0 \<le> success st \<and> success st \<le> total st) \<and>
   0 \<le> success_rate (get_stats (worker_stats (log_results calls initial_state)) name) \<and>
   success_rate (get_stats (worker_stats (log_results calls initial_state)) name) \<le> 1 \<and>
   (worker_stats (log_results calls initial_state) name = None \<longrightarrow>
       success_rate (get_stats (worker_stats (log_results calls initial_state)) name) = 0.9) \<and>
   total (get_stats (worker_stats (log_result name ok s)) name) =
     total (get_stats (worker_stats s) name) + 1 \<and>
   success (get_stats (worker_stats (log_result name ok s)) name) =
     success (get_stats (worker_stats s) name) + (if ok then 1 else 0) \<and>
   (other \<noteq> name \<longrightarrow> worker_stats (log_result name ok s) other = worker_stats s other)"
proof -
  let ?s = "log_results calls initial_state"
  have ok: "stats_ok (worker_stats ?s)"
    using stats_ok_initial by (rule stats_ok_log_results)
  have a: "worker_stats ?s name = Some st \<longrightarrow> 0 \<le> success st \<and> success st \<le> total st"
    using ok by (simp add: stats_ok_def)
  have b: "0 \<le> success_rate (get_stats (worker_stats ?s) name) \<and>
           success_rate (get_stats (worker_stats ?s) name) \<le> 1"
    using stats_ok_get_stats [OF ok, of name] by (simp add: success_rate_unit)
  have c: "worker_stats ?s name = None \<longrightarrow>
             success_rate (get_stats (worker_stats ?s) name) = 0.9"
    by (simp add: get_stats_def success_rate_def)
  have d: "total (get_stats (worker_stats (log_result name ok s)) name) =
             total (get_stats (worker_stats s) name) + 1"
    by (simp add: worker_stats_log_result bump_stats_def get_stats_def Let_def)
  have e: "success (get_stats (worker_stats (log_result name ok s)) name) =
             success (get_stats (worker_stats s) name) + (if ok then 1 else 0)"
    by (simp add: worker_stats_log_result bump_stats_def get_stats_def Let_def)
  have f: "other \<noteq> name \<longrightarrow> worker_stats (log_result name ok s) other = worker_stats s other"
    by (simp add: worker_stats_log_result bump_stats_def Let_def)
  from a b c d e f show ?thesis by blast
qed

text \<open>Claim C9, witness: two successes and a failure of one worker, a success of
  another.\<close>

theorem worker_stats_invariant_witness:
  "worker_stats (log_results [(''coder-1'', True), (''general-1'', True), (''coder-1'', False),
                               (''coder-1'', True)] initial_state) ''coder-1''
     = Some \<lparr>success = 2, total = 3\<rparr> \<and>
   (0::int) \<le> 2 \<and> (2::int) \<le> 3 \<and>
   worker_stats (log_result ''coder-1'' True initial_state) ''general-1'' =
     worker_stats initial_state ''general-1''"
proof -
  have a: "worker_stats (log_results [(''coder-1'', True), (''general-1'', True),
             (''coder-1'', False), (''coder-1'', True)] initial_state) ''coder-1''
           = Some \<lparr>success = 2, total = 3\<rparr>"
    by (simp add: log_results_def worker_stats_log_result bump_stats_def get_stats_def
                  initial_state_def Let_def)
  have b: "''general-1'' \<noteq> ''coder-1''" by simp
  show ?thesis
    using worker_stats_invariant
            [of "[(''coder-1'', True), (''general-1'', True), (''coder-1'', False), (''coder-1'', True)]"
                "''coder-1''" "\<lparr>success = 2, total = 3\<rparr>" True initial_state "''general-1''"] a b
    by simp
qed

section \<open>Properties of the worker executor\<close>

lemma read_response_error:
  assumes "map_of result ''result'' = Some (JStr out)"
    and "sublist ''error'' (take 100 (lower out))"
    and "read_response (Inr (JDict result)) = Inr (output, flag, extra)"
  shows "\<not> flag"
  using assms
  by (auto simp: read_response_def check_output_def Let_def
           split: option.splits json.splits if_splits)

text \<open>
  Claim C8. \<open>execute\<close> yields a tuple on every path, each exception inside its
  \<open>try\<close> being turned into one. The success component is \<open>False\<close> when the call
  times out, when it raises, when the status is not 200, when reading the response
  raises, and when the result text, lowered and then cut to its first 100
  characters (\<open>output.lower()[:100]\<close>), contains "error", whatever the worker's
  own success flag says.
\<close>

theorem execute_failure_outcomes:
  "(requests_post w t (host worker) (port worker)
       (if ctx \<noteq> [] then ctx @ [CHR 0x0A, CHR 0x0A] @ message else message)
       files timeout = post) \<longrightarrow>
   (post = Timeout \<longrightarrow>
      execute w t worker message files ctx timeout =
        (JStr (''Worker timeout after '' @ str_nat timeout @ ''s''), False, elapsed w t, None)) \<and>
   (post = RequestException e \<longrightarrow>
      execute w t worker message files ctx timeout =
        (JStr (''Worker error: '' @ take 100 e), False, elapsed w t, None)) \<and>
   (post = Response status_code body \<longrightarrow> status_code \<noteq> 200 \<longrightarrow>
      execute w t worker message files ctx timeout =
        (JStr (''Worker error: HTTP '' @ str_nat status_code), False, elapsed w t, None)) \<and>
   (post = Response 200 body \<longrightarrow> read_response body = Inl e \<longrightarrow>
      execute w t worker message files ctx timeout =
        (JStr (''Worker error: '' @ take 100 e), False, elapsed w t, None)) \<and>
   (post = Response 200 (Inr (JDict result)) \<longrightarrow>
      map_of result ''result'' = Some (JStr out) \<longrightarrow>
      sublist ''error'' (take 100 (lower out)) \<longrightarrow>
      \<not> fst (snd (execute w t worker message files ctx timeout)))"
  using read_response_error [of result out]
  by (auto simp: execute_def Let_def split: sum.splits prod.splits)

text \<open>Claim C8, witness: a reply of status 200 whose text starts with "An Error" is
  a failure although the worker reports success.\<close>

theorem execute_failure_outcomes_witness:
  "\<not> fst (snd (execute
       (scenario_world\<lparr>requests_post := (\<lambda>t h p prompt files timeout.
          Response 200 (Inr (JDict [(''result'', JStr ''An Error occurred while compiling''),
                                    (''success'', JBool True)])))\<rparr>)
       0 helper ''compile it'' [] [] 120))"
proof -
  have a: "sublist ''error'' (take 100 (lower ''An Error occurred while compiling''))"
    by code_simp
  show ?thesis
    using a execute_failure_outcomes
      [where w = "scenario_world\<lparr>requests_post := (\<lambda>t h p prompt files timeout.
          Response 200 (Inr (JDict [(''result'', JStr ''An Error occurred while compiling''),
                                    (''success'', JBool True)])))\<rparr>"
         and t = 0 and worker = helper and message = "''compile it''" and files = "[]"
         and ctx = "[]" and timeout = 120
         and post = "Response 200 (Inr (JDict [(''result'', JStr ''An Error occurred while compiling''),
                                    (''success'', JBool True)]))"
         and result = "[(''result'', JStr ''An Error occurred while compiling''),
                                    (''success'', JBool True)]"
         and out = "''An Error occurred while compiling''"]
    by simp
qed

section \<open>How the operations extend the trace\<close>

lemma trace_emit [simp]: "trace (emit e s) = trace s @ [e]"
  by (simp add: emit_def)

lemma clock_emit [simp]: "clock (emit e s) = Suc (clock s)"
  by (simp add: clock_def)

lemma extends_by_refl [simp]: "extends_by P s s"
  by (simp add: extends_by_def)

lemma extends_by_trans:
  "extends_by P s s' \<Longrightarrow> extends_by P s' s'' \<Longrightarrow> extends_by P s s''"
  by (auto simp: extends_by_def)

lemma extends_by_emit: "P e \<Longrightarrow> extends_by P s (emit e s)"
  by (simp add: extends_by_def)

lemma extends_by_emit_after: "extends_by P s s' \<Longrightarrow> P e \<Longrightarrow> extends_by P s (emit e s')"
  by (auto simp: extends_by_def)

lemma extends_by_new_events: "extends_by P s s' \<Longrightarrow> list_all P (new_events s s')"
  by (auto simp: extends_by_def new_events_def)

lemma snd_get_available_agents [simp]:
  "snd (get_available_agents w task_type s) = emit (Lookup task_type) s"
  by (simp add: get_available_agents_def split: option.splits db_fault.splits)

lemma snd_db_write [simp]: "snd (db_write w name s) = emit (Db name) s"
  by (simp add: db_write_def split: option.splits db_fault.splits)

lemma snd_db_guarded [simp]: "snd (db_guarded w name s) = emit (Db name) s"
  by (simp add: db_guarded_def split: option.splits db_fault.splits)

lemma snd_create_task [simp]: "snd (create_task w s) = emit (Db ''create_task'') s"
  by (simp add: create_task_def case_prod_beta split: sum.splits)

lemma snd_select_best_worker [simp]:
  "snd (select_best_worker w worker_type available s) = emit (Select worker_type available) s"
  by (simp add: select_best_worker_def)

lemma snd_answer_directly [simp]:
  "snd (answer_directly w message history s) = emit (Direct message) s"
  by (simp add: answer_directly_def Let_def split: option.splits sum.splits)

lemma extends_by_store_message:
  "(\<And>name. P (Db name)) \<Longrightarrow> extends_by P s (snd (store_message w c r v s))"
  by (simp add: store_message_def extends_by_emit)

lemma extends_by_get_last_n_messages:
  "(\<And>name. P (Db name)) \<Longrightarrow> extends_by P s (snd (get_last_n_messages w c n s))"
  by (simp add: get_last_n_messages_def extends_by_emit Let_def split: option.splits db_fault.splits)

lemma extends_by_upload_loop:
  "(\<And>name. P (ParseDocument name)) \<Longrightarrow> extends_by P s (snd (upload_loop w files s))"
proof (induction files arbitrary: s)
  case Nil
  then show ?case by simp
next
  case (Cons f rest)
  have "extends_by P (emit (ParseDocument (upload_filename f)) s)
          (snd (upload_loop w rest (emit (ParseDocument (upload_filename f)) s)))"
    using Cons by blast
  moreover have "extends_by P s (emit (ParseDocument (upload_filename f)) s)"
    using Cons.prems by (simp add: extends_by_emit)
  ultimately show ?case
    by (simp add: Let_def case_prod_beta) (rule extends_by_trans)
qed

lemma fst_upload_loop: "fst (fst (upload_loop w files s)) = map (file_entry w) files"
  by (induction files arbitrary: s) (simp_all add: Let_def case_prod_beta)

lemma extends_by_process_uploads:
  "(\<And>name. P (ParseDocument name)) \<Longrightarrow> extends_by P s (snd (process_uploads w files s))"
  using extends_by_upload_loop [of P s w files]
  by (simp add: process_uploads_def case_prod_beta)

lemma fst_process_uploads: "fst (fst (process_uploads w files s)) = map (file_entry w) files"
  using fst_upload_loop [of w files s]
  by (simp add: process_uploads_def case_prod_beta)

lemma plan_task_multi:
  "is_multi_step (plan_task self message files) = (length (steps (plan_task self message files)) > 1)"
  by (auto simp: plan_task_def default_plan_def Let_def
           split: option.splits sum.splits json.splits)

section \<open>Short general requests\<close>

lemma execute_plan_simple:
  assumes "steps task_plan = [''general'']" and "\<not> is_multi_step task_plan"
    and "length (strip message) < 50"
  shows "execute_plan w task_plan message file_data file_context history s =
           (Inr (fst (answer_directly w message history s), None), emit (Direct message) s)"
  using assms by (simp add: execute_plan_def case_prod_beta)

lemma not_worker_event_simps [simp]:
  "\<not> worker_event (Db name)" "\<not> worker_event (ParseDocument name)"
  "\<not> worker_event (Direct message)"
  by simp_all

lemma process_message_simple_quiet:
  assumes "steps (plan_task (planner w) message (map (file_entry w) files)) = [''general'']"
    and "length (strip message) < 50"
  shows "extends_by (\<lambda>e. \<not> worker_event e) s
           (snd (process_message w user_id message conversation_id files s))"
proof -
  let ?Q = "extends_by (\<lambda>e. \<not> worker_event e)"
  define cid where "cid = conversation_id_or_new w user_id conversation_id s"
  define s1 where "s1 = emit (Db ''create_or_get_conversation'') s"
  define s2 where "s2 = snd (store_message w cid ''user'' (JStr message) s1)"
  define s3 where "s3 = snd (process_uploads w files s2)"
  define s4 where "s4 = snd (get_last_n_messages w cid 10 s3)"
  define s5 where "s5 = emit (Direct message) s4"
  define s6 where "s6 = snd (store_message w cid ''assistant''
     (fst (answer_directly w message (projr (fst (get_last_n_messages w cid 10 s3))) s4)) s5)"
  have nm: "\<not> is_multi_step (plan_task (planner w) message (map (file_entry w) files))"
    using assms(1) by (simp add: plan_task_multi)
  have mem: "snd (process_message w user_id message conversation_id files s) \<in> {s1, s2, s4, s6}"
    unfolding process_message_def Let_def case_prod_beta fst_process_uploads
      execute_plan_simple [OF assms(1) nm assms(2)]
    unfolding cid_def [symmetric]
    by (auto simp: s1_def s2_def s3_def s4_def s5_def s6_def split: sum.splits)
  have q1: "?Q s s1" unfolding s1_def by (simp add: extends_by_emit)
  have q2: "?Q s s2" unfolding s2_def
    by (rule extends_by_trans [OF q1]) (simp add: extends_by_store_message)
  have q3: "?Q s s3" unfolding s3_def
    by (rule extends_by_trans [OF q2]) (simp add: extends_by_process_uploads)
  have q4: "?Q s s4" unfolding s4_def
    by (rule extends_by_trans [OF q3]) (simp add: extends_by_get_last_n_messages)
  have q5: "?Q s s5" unfolding s5_def by (rule extends_by_emit_after [OF q4]) simp
  have q6: "?Q s s6" unfolding s6_def
    by (rule extends_by_trans [OF q5]) (simp add: extends_by_store_message)
  from mem q1 q2 q4 q6 show ?thesis by auto
qed

lemma no_connection_fault_guarded:
  "\<forall>t e. db_fault_at w t \<noteq> Some (ConnectionFailed e) \<Longrightarrow> fst (db_guarded w name s) = Inr ()"
  by (auto simp: db_guarded_def split: option.splits db_fault.splits)

lemma no_connection_fault_store_message:
  "\<forall>t e. db_fault_at w t \<noteq> Some (ConnectionFailed e) \<Longrightarrow>
     fst (store_message w c r v s) = Inr ()"
  by (simp add: store_message_def no_connection_fault_guarded)

lemma no_connection_fault_get_last_n_messages:
  "\<forall>t e. db_fault_at w t \<noteq> Some (ConnectionFailed e) \<Longrightarrow>
     \<exists>h. fst (get_last_n_messages w c n s) = Inr h"
  by (auto simp: get_last_n_messages_def Let_def split: option.splits db_fault.splits)

lemma emitted_in_new_events:
  assumes "extends_by P s s'" and "extends_by Q (emit e s') s''"
  shows "e \<in> set (new_events s s'')"
  using assms by (auto simp: extends_by_def new_events_def)

lemma process_message_simple_result:
  assumes "steps (plan_task (planner w) message (map (file_entry w) files)) = [''general'']"
    and "length (strip message) < 50"
    and nf: "\<forall>t e. db_fault_at w t \<noteq> Some (ConnectionFailed e)"
  shows "(let cid = conversation_id_or_new w user_id conversation_id s;
              s1 = emit (Db ''create_or_get_conversation'') s;
              s2 = snd (store_message w cid ''user'' (JStr message) s1);
              s3 = snd (process_uploads w files s2);
              loaded = get_last_n_messages w cid 10 s3
          in \<exists>history. fst loaded = Inr history \<and>
               fst (process_message w user_id message conversation_id files s) =
                 Inr \<lparr>payload_response = fst (answer_directly w message history (snd loaded)),
                      payload_conversation_id = cid, payload_file = None\<rparr>) \<and>
         Direct message \<in> set (new_events s (snd (process_message w user_id message conversation_id files s)))"
proof -
  let ?Q = "extends_by (\<lambda>e. \<not> worker_event e)"
  define cid where "cid = conversation_id_or_new w user_id conversation_id s"
  define s1 where "s1 = emit (Db ''create_or_get_conversation'') s"
  define s2 where "s2 = snd (store_message w cid ''user'' (JStr message) s1)"
  define s3 where "s3 = snd (process_uploads w files s2)"
  define s4 where "s4 = snd (get_last_n_messages w cid 10 s3)"
  define s5 where "s5 = emit (Direct message) s4"
  obtain h where h: "fst (get_last_n_messages w cid 10 s3) = Inr h"
    using no_connection_fault_get_last_n_messages [OF nf] by blast
  define s6 where "s6 = snd (store_message w cid ''assistant''
     (fst (answer_directly w message h s4)) s5)"
  have nm: "\<not> is_multi_step (plan_task (planner w) message (map (file_entry w) files))"
    using assms(1) by (simp add: plan_task_multi)
  have res: "process_message w user_id message conversation_id files s =
          (Inr \<lparr>payload_response = fst (answer_directly w message h s4),
                payload_conversation_id = cid, payload_file = None\<rparr>, s6)"
    unfolding process_message_def Let_def case_prod_beta fst_process_uploads
      execute_plan_simple [OF assms(1) nm assms(2)]
    unfolding cid_def [symmetric]
    using h
    by (simp add: no_connection_fault_guarded [OF nf] no_connection_fault_store_message [OF nf]
                  s1_def s2_def s3_def s4_def s5_def s6_def)
  have q1: "?Q s s1" unfolding s1_def by (simp add: extends_by_emit)
  have q2: "?Q s s2" unfolding s2_def
    by (rule extends_by_trans [OF q1]) (simp add: extends_by_store_message)
  have q3: "?Q s s3" unfolding s3_def
    by (rule extends_by_trans [OF q2]) (simp add: extends_by_process_uploads)
  have q4: "?Q s s4" unfolding s4_def
    by (rule extends_by_trans [OF q3]) (simp add: extends_by_get_last_n_messages)
  have q6: "?Q (emit (Direct message) s4) s6" unfolding s6_def s5_def
    by (simp add: extends_by_store_message)
  have "Direct message \<in> set (new_events s s6)"
    using q4 q6 by (rule emitted_in_new_events)
  then have d: "Direct message \<in>
      set (new_events s (snd (process_message w user_id message conversation_id files s)))"
    using res by simp
  have "\<exists>history. fst (get_last_n_messages w cid 10 s3) = Inr history \<and>
          fst (process_message w user_id message conversation_id files s) =
            Inr \<lparr>payload_response =
                   fst (answer_directly w message history (snd (get_last_n_messages w cid 10 s3))),
                 payload_conversation_id = cid, payload_file = None\<rparr>"
    using h res by (simp add: s4_def)
  then show ?thesis
    unfolding Let_def using d by (simp only: s3_def s2_def s1_def cid_def simp_thms)
qed

text \<open>
  Claim C10. When the plan of a request is the single step \<open>general\<close> and the
  message, stripped, is shorter than 50 characters, the step is executed by
  \<open>answer_directly\<close> alone; \<open>process_message\<close> then adds to the trace no worker
  lookup, no worker selection, no dispatch and no validation, and, unless a
  database connection fails, the response of its payload is what
  \<open>answer_directly\<close> returns for the message and the history just loaded, with no
  file attached.
\<close>

theorem short_general_request_answered_directly:
  assumes "steps (plan_task (planner w) message (map (file_entry w) files)) = [''general'']"
    and "length (strip message) < 50"
  shows "execute_plan w (plan_task (planner w) message (map (file_entry w) files))
             message file_data file_context history s0 =
           (Inr (fst (answer_directly w message history s0), None), emit (Direct message) s0) \<and>
         list_all (\<lambda>e. \<not> worker_event e)
           (new_events s (snd (process_message w user_id message conversation_id files s))) \<and>
         ((\<forall>t e. db_fault_at w t \<noteq> Some (ConnectionFailed e)) \<longrightarrow>
            (let cid = conversation_id_or_new w user_id conversation_id s;
                 s1 = emit (Db ''create_or_get_conversation'') s;
                 s2 = snd (store_message w cid ''user'' (JStr message) s1);
                 s3 = snd (process_uploads w files s2);
                 loaded = get_last_n_messages w cid 10 s3
             in \<exists>history. fst loaded = Inr history \<and>
                  fst (process_message w user_id message conversation_id files s) =
                    Inr \<lparr>payload_response = fst (answer_directly w message history (snd loaded)),
                         payload_conversation_id = cid, payload_file = None\<rparr>) \<and>
            Direct message \<in>
              set (new_events s (snd (process_message w user_id message conversation_id files s))))"
proof -
  have nm: "\<not> is_multi_step (plan_task (planner w) message (map (file_entry w) files))"
    using assms(1) by (simp add: plan_task_multi)
  have a: "execute_plan w (plan_task (planner w) message (map (file_entry w) files))
             message file_data file_context history s0 =
           (Inr (fst (answer_directly w message history s0), None), emit (Direct message) s0)"
    using assms(1) nm assms(2) by (rule execute_plan_simple)
  have b: "list_all (\<lambda>e. \<not> worker_event e)
           (new_events s (snd (process_message w user_id message conversation_id files s)))"
    using process_message_simple_quiet [OF assms] by (rule extends_by_new_events)
  from a b process_message_simple_result [OF assms] show ?thesis by blast
qed

text \<open>Claim C10, witness: "hello there" on the registry above, whose planner has no
  client and so plans \<open>general\<close>; the trace holds three database calls and the
  direct answer.\<close>

theorem short_general_request_answered_directly_witness:
  "steps (plan_task (planner scenario_world) ''hello there'' (map (file_entry scenario_world) []))
     = [''general''] \<and>
   length (strip ''hello there'') < 50 \<and>
   list_all (\<lambda>e. \<not> worker_event e)
     (new_events initial_state
        (snd (process_message scenario_world ''u1'' ''hello there'' None [] initial_state))) \<and>
   Direct ''hello there'' \<in> set (new_events initial_state
        (snd (process_message scenario_world ''u1'' ''hello there'' None [] initial_state))) \<and>
   fst (process_message scenario_world ''u1'' ''hello there'' None [] initial_state) =
     Inr \<lparr>payload_response = JStr (''I'' @ [CHR 0x27] @ ''m offline. Please try again later.''),
          payload_conversation_id = ''u1_1700000000'', payload_file = None\<rparr>"
proof -
  have a: "steps (plan_task (planner scenario_world) ''hello there''
                    (map (file_entry scenario_world) [])) = [''general'']"
    by (simp add: scenario_world_def plan_task_def)
  have b: "length (strip ''hello there'') < 50" by code_simp
  have c: "\<forall>t e. db_fault_at scenario_world t \<noteq> Some (ConnectionFailed e)"
    by (simp add: scenario_world_def)
  have n: "str_nat 1700000000 = ''1700000000''"
    by (simp add: str_nat.simps char_of_def bit_Suc_0_iff)
  have d: "conversation_id_or_new scenario_world ''u1'' None initial_state = ''u1_1700000000''"
    by (simp add: conversation_id_or_new_def scenario_world_def n)
  have e: "answer_directly scenario_world ''hello there'' history s =
             (JStr (''I'' @ [CHR 0x27] @ ''m offline. Please try again later.''),
              emit (Direct ''hello there'') s)" for history s
    by (simp add: answer_directly_def scenario_world_def)
  note T = short_general_request_answered_directly [OF a b, of "[]" "[]" "[]" initial_state
             initial_state "''u1''" None]
  from T have q: "list_all (\<lambda>e. \<not> worker_event e)
     (new_events initial_state
        (snd (process_message scenario_world ''u1'' ''hello there'' None [] initial_state)))"
    by (rule conjunct1 [OF conjunct2])
  from T c have r: "(let cid = conversation_id_or_new scenario_world ''u1'' None initial_state;
                 s1 = emit (Db ''create_or_get_conversation'') initial_state;
                 s2 = snd (store_message scenario_world cid ''user'' (JStr ''hello there'') s1);
                 s3 = snd (process_uploads scenario_world [] s2);
                 loaded = get_last_n_messages scenario_world cid 10 s3
             in \<exists>history. fst loaded = Inr history \<and>
                  fst (process_message scenario_world ''u1'' ''hello there'' None [] initial_state) =
                    Inr \<lparr>payload_response =
                           fst (answer_directly scenario_world ''hello there'' history (snd loaded)),
                         payload_conversation_id = cid, payload_file = None\<rparr>) \<and>
            Direct ''hello there'' \<in>
              set (new_events initial_state
                (snd (process_message scenario_world ''u1'' ''hello there'' None [] initial_state)))"
    by (rule mp [OF conjunct2 [OF conjunct2]])
  from r have p: "fst (process_message scenario_world ''u1'' ''hello there'' None [] initial_state) =
     Inr \<lparr>payload_response = JStr (''I'' @ [CHR 0x27] @ ''m offline. Please try again later.''),
          payload_conversation_id = ''u1_1700000000'', payload_file = None\<rparr>"
    unfolding Let_def d e fst_conv by (elim conjE exE)
  from a b q r p show ?thesis by (simp only: simp_thms)
qed

end
